theory Spec2Isabelle
  imports Complex_Main
begin

section \<open>JavaScript numbers\<close>

text \<open>
  The engine of \<^verbatim>\<open>src/App.jsx\<close> computes with JavaScript numbers, which are IEEE 754
  doubles. A number is modelled as a real or one of the three special values. The special
  values follow IEEE 754: a division by zero gives an infinity or NaN, NaN is absorbing,
  and every comparison with NaN is false. A sum, product or quotient of finite operands
  overflows as a double does: the largest double is \<open>2^1024 - 2^971\<close>
  (\<^verbatim>\<open>Number.MAX_VALUE\<close>), and a result of magnitude \<open>2^1024 - 2^970\<close> or more, half a unit
  in the last place above it, is an infinity. Below that bound the result is the exact
  real: the rounding to 53 bits, the underflow of tiny results to zero and the sign of
  zero are not modelled.
\<close>

datatype jsnum = Fin real | PInf | NInf | NaN

definition MAX_VALUE :: real where
  "MAX_VALUE = 2 ^ 1024 - 2 ^ 971"

definition overflowAt :: real where
  "overflowAt = 2 ^ 1024 - 2 ^ 970"

definition ovf :: "real \<Rightarrow> jsnum" where
  "ovf r = (if overflowAt \<le> r then PInf else if r \<le> - overflowAt then NInf else Fin r)"

fun isFin :: "jsnum \<Rightarrow> bool" where
  "isFin (Fin x) = True"
| "isFin PInf = False"
| "isFin NInf = False"
| "isFin NaN = False"

fun neg :: "jsnum \<Rightarrow> jsnum" where
  "neg (Fin x) = Fin (- x)"
| "neg PInf = NInf"
| "neg NInf = PInf"
| "neg NaN = NaN"

instantiation jsnum :: "{plus, minus, times, inverse, ord}"
begin

fun plus_jsnum :: "jsnum \<Rightarrow> jsnum \<Rightarrow> jsnum" where
  "plus_jsnum (Fin x) (Fin y) = ovf (x + y)"
| "plus_jsnum NaN b = NaN"
| "plus_jsnum a NaN = NaN"
| "plus_jsnum PInf NInf = NaN"
| "plus_jsnum NInf PInf = NaN"
| "plus_jsnum PInf b = PInf"
| "plus_jsnum NInf b = NInf"
| "plus_jsnum (Fin x) b = b"

definition minus_jsnum :: "jsnum \<Rightarrow> jsnum \<Rightarrow> jsnum" where
  "minus_jsnum a b = a + neg b"

fun times_jsnum :: "jsnum \<Rightarrow> jsnum \<Rightarrow> jsnum" where
  "times_jsnum (Fin x) (Fin y) = ovf (x * y)"
| "times_jsnum NaN b = NaN"
| "times_jsnum a NaN = NaN"
| "times_jsnum (Fin x) PInf = (if x = 0 then NaN else if 0 < x then PInf else NInf)"
| "times_jsnum (Fin x) NInf = (if x = 0 then NaN else if 0 < x then NInf else PInf)"
| "times_jsnum PInf (Fin y) = (if y = 0 then NaN else if 0 < y then PInf else NInf)"
| "times_jsnum NInf (Fin y) = (if y = 0 then NaN else if 0 < y then NInf else PInf)"
| "times_jsnum PInf PInf = PInf"
| "times_jsnum PInf NInf = NInf"
| "times_jsnum NInf PInf = NInf"
| "times_jsnum NInf NInf = PInf"

fun divide_jsnum :: "jsnum \<Rightarrow> jsnum \<Rightarrow> jsnum" where
  "divide_jsnum (Fin x) (Fin y) =
     (if y = 0 then (if x = 0 then NaN else if 0 < x then PInf else NInf)
      else ovf (x / y))"
| "divide_jsnum NaN b = NaN"
| "divide_jsnum a NaN = NaN"
| "divide_jsnum (Fin x) b = Fin 0"
| "divide_jsnum PInf (Fin y) = (if 0 \<le> y then PInf else NInf)"
| "divide_jsnum NInf (Fin y) = (if 0 \<le> y then NInf else PInf)"
| "divide_jsnum a b = NaN"

definition inverse_jsnum :: "jsnum \<Rightarrow> jsnum" where
  "inverse_jsnum a = divide (Fin 1) a"

fun less_eq_jsnum :: "jsnum \<Rightarrow> jsnum \<Rightarrow> bool" where
  "less_eq_jsnum (Fin x) (Fin y) = (x \<le> y)"
| "less_eq_jsnum NaN b = False"
| "less_eq_jsnum a NaN = False"
| "less_eq_jsnum NInf b = True"
| "less_eq_jsnum a PInf = True"
| "less_eq_jsnum a b = False"

fun less_jsnum :: "jsnum \<Rightarrow> jsnum \<Rightarrow> bool" where
  "less_jsnum (Fin x) (Fin y) = (x < y)"
| "less_jsnum NaN b = False"
| "less_jsnum a NaN = False"
| "less_jsnum PInf b = False"
| "less_jsnum a NInf = False"
| "less_jsnum a b = True"

instance ..

end

text \<open>\<^verbatim>\<open>Math.max\<close> on two numbers: NaN if either is NaN, else the larger.\<close>

fun Math_max :: "jsnum \<Rightarrow> jsnum \<Rightarrow> jsnum" where
  "Math_max NaN b = NaN"
| "Math_max a NaN = NaN"
| "Math_max a b = (if a \<le> b then b else a)"


section \<open>Parameters and results\<close>

text \<open>
  The three parameter groups of \<^verbatim>\<open>computeScore(market, unit, runway)\<close>, with the fields of
  \<^verbatim>\<open>DEFAULTS\<close>. \<^verbatim>\<open>billing\<close> is a JavaScript string.
\<close>

record marketParams =
  tam :: jsnum
  samPct :: jsnum
  somPct :: jsnum
  horizon :: jsnum
  targetARR :: jsnum

record unitParams =
  price :: jsnum
  billing :: string
  grossMargin :: jsnum
  cac :: jsnum
  churnMonthly :: jsnum

record runwayParams =
  startingCash :: jsnum
  totalMonthlyBurn :: jsnum
  burnHeadcount :: jsnum
  burnInfra :: jsnum
  burnOps :: jsnum
  monthlyRevenue :: jsnum
  revenueGrowthMoM :: jsnum
  fundraiseMonth :: jsnum
  fundraiseAmount :: jsnum
  safeCapPercent :: jsnum
  optionPool :: jsnum

text \<open>
  A flag \<^verbatim>\<open>{id, module, severity, msg, detail, fix}\<close>. The three display texts
  (\<^verbatim>\<open>msg\<close>, \<^verbatim>\<open>detail\<close>, \<^verbatim>\<open>fix\<close>) are formatted prose that no check reads; the model
  keeps the key (\<^verbatim>\<open>id\<close>, written \<open>id_flag\<close> beside HOL's \<open>id\<close>), the module number and
  the severity, a string as in the source.
\<close>

record flag =
  id_flag :: string
  module :: int
  severity :: string

text \<open>
  The state of the cash loop: the \<^verbatim>\<open>let\<close> variables \<^verbatim>\<open>cash\<close>, \<^verbatim>\<open>rev\<close> (written
  \<open>rev_s\<close> beside HOL's \<open>rev\<close>), \<^verbatim>\<open>runwayMonths\<close>, \<^verbatim>\<open>breakevenMonth\<close> (\<^verbatim>\<open>null\<close> is
  \<open>None\<close>) and the array \<^verbatim>\<open>cashData\<close>. The loop counter, \<^verbatim>\<open>runwayMonths\<close> and
  \<^verbatim>\<open>breakevenMonth\<close> only ever hold small integers and are modelled as \<open>int\<close>.
\<close>

record simState =
  cash :: jsnum
  rev_s :: jsnum
  runwayMonths :: int
  breakevenMonth :: "int option"
  cashData :: "jsnum list"

text \<open>
  The returned object \<^verbatim>\<open>{ score, flags, derived: { sam, som, ... } }\<close>. The fields of
  \<^verbatim>\<open>derived\<close> carry the prefix \<open>d_\<close>; the plain names are those of the local constants
  of \<^verbatim>\<open>computeScore\<close> that they are filled from.
\<close>

record derivedMetrics =
  d_sam :: jsnum
  d_som :: jsnum
  d_ltv :: jsnum
  d_payback :: jsnum
  d_ltvCac :: jsnum
  d_avgLifespanMonths :: jsnum
  d_runwayMonths :: int
  d_breakevenMonth :: "int option"
  d_cashData :: "jsnum list"
  d_founderOwnership :: jsnum
  d_totalDilution :: jsnum

record scoreResult =
  score :: int
  flags :: "flag list"
  derived :: derivedMetrics

section \<open>Module 1: market\<close>

definition sam :: "marketParams \<Rightarrow> jsnum" where
  "sam market = tam market * (samPct market / Fin 100)"

definition som :: "marketParams \<Rightarrow> jsnum" where
  "som market = sam market * (somPct market / Fin 100)"

text \<open>
  Each \<^verbatim>\<open>if\<close> chain of the scoring engine either adds points to \<^verbatim>\<open>score\<close>
  (\<^verbatim>\<open>score += 20\<close>) or pushes a flag (\<^verbatim>\<open>flags.push\<close>). A check is modelled by the pair of
  the points it adds and the flags it pushes; \<^verbatim>\<open>computeScore\<close> below sums the points and
  concatenates the flags in the order of the source.
\<close>

definition tamCheck :: "marketParams \<Rightarrow> int \<times> flag list" where
  "tamCheck market =
     (if tam market \<ge> Fin 10000000000 then (20, [])
      else if tam market \<ge> Fin 1000000000 then (13, [])
      else (0, [\<lparr>id_flag = ''tam_small'', module = 1, severity = ''critical''\<rparr>]))"

definition somPctCheck :: "marketParams \<Rightarrow> int \<times> flag list" where
  "somPctCheck market =
     (if somPct market \<le> Fin 5 then (15, [])
      else if somPct market \<le> Fin 10 then (8, [])
      else (0, [\<lparr>id_flag = ''som_high'', module = 1, severity = ''warning''\<rparr>]))"

definition somAbsCheck :: "marketParams \<Rightarrow> int \<times> flag list" where
  "somAbsCheck market =
     (if som market \<ge> Fin 100000000 then (10, [])
      else if som market \<ge> Fin 30000000 then (5, [])
      else (0, [\<lparr>id_flag = ''som_abs'', module = 1, severity = ''warning''\<rparr>]))"

section \<open>Module 2: unit economics\<close>

definition monthlyPrice :: "unitParams \<Rightarrow> jsnum" where
  "monthlyPrice unit =
     (if billing unit = ''monthly'' then price unit else price unit / Fin 12)"

definition grossRevPerMonth :: "unitParams \<Rightarrow> jsnum" where
  "grossRevPerMonth unit = monthlyPrice unit * (grossMargin unit / Fin 100)"

definition churnRate :: "unitParams \<Rightarrow> jsnum" where
  "churnRate unit = churnMonthly unit / Fin 100"

definition ltv :: "unitParams \<Rightarrow> jsnum" where
  "ltv unit =
     (if churnRate unit > Fin 0 then grossRevPerMonth unit / churnRate unit else Fin 999999)"

definition payback :: "unitParams \<Rightarrow> jsnum" where
  "payback unit =
     (if grossRevPerMonth unit > Fin 0 then cac unit / grossRevPerMonth unit else Fin 999)"

definition ltvCac :: "unitParams \<Rightarrow> jsnum" where
  "ltvCac unit = (if cac unit > Fin 0 then ltv unit / cac unit else Fin 0)"

definition avgLifespanMonths :: "unitParams \<Rightarrow> jsnum" where
  "avgLifespanMonths unit =
     (if churnRate unit > Fin 0 then Fin 1 / churnRate unit else Fin 999)"

definition ltvCacCheck :: "unitParams \<Rightarrow> int \<times> flag list" where
  "ltvCacCheck unit =
     (if ltvCac unit \<ge> Fin 5 then (20, [])
      else if ltvCac unit \<ge> Fin 3 then (12, [])
      else if ltvCac unit \<ge> Fin 2 then (5, [])
      else (0, [\<lparr>id_flag = ''ltvcac_low'', module = 2, severity = ''critical''\<rparr>]))"

definition paybackCheck :: "unitParams \<Rightarrow> int \<times> flag list" where
  "paybackCheck unit =
     (if payback unit \<le> Fin 6 then (15, [])
      else if payback unit \<le> Fin 12 then (8, [])
      else (0, [\<lparr>id_flag = ''payback_long'', module = 2, severity = ''warning''\<rparr>]))"

definition marginCheck :: "unitParams \<Rightarrow> int \<times> flag list" where
  "marginCheck unit =
     (if grossMargin unit \<ge> Fin 70 then (10, [])
      else if grossMargin unit \<ge> Fin 60 then (5, [])
      else (0, [\<lparr>id_flag = ''margin_low'', module = 2, severity = ''warning''\<rparr>]))"

definition churnCheck :: "unitParams \<Rightarrow> int \<times> flag list" where
  "churnCheck unit =
     (if churnMonthly unit \<ge> Fin 5
      then (0, [\<lparr>id_flag = ''churn_high'', module = 2, severity = ''warning''\<rparr>])
      else (0, []))"

section \<open>Module 3: runway\<close>

text \<open>
  The body of \<^verbatim>\<open>for (let m = 1; m <= 24; m++)\<close>, in the order of the source: burn, the
  fundraise of this month, the push to \<^verbatim>\<open>cashData\<close>, the two first-occurrence tests, and
  the growth of \<^verbatim>\<open>rev\<close> last.
\<close>

definition simStep :: "runwayParams \<Rightarrow> int \<Rightarrow> simState \<Rightarrow> simState" where
  "simStep runway m s =
     (let netBurn = totalMonthlyBurn runway - rev_s s;
          cash1 = cash s - netBurn;
          cash2 = (if Fin (of_int m) = fundraiseMonth runway \<and> fundraiseAmount runway > Fin 0
                   then cash1 + fundraiseAmount runway else cash1)
      in \<lparr>cash = cash2,
          rev_s = rev_s s * (Fin 1 + revenueGrowthMoM runway / Fin 100),
          runwayMonths =
            (if cash2 \<le> Fin 0 \<and> runwayMonths s = 24 then m - 1 else runwayMonths s),
          breakevenMonth =
            (if netBurn \<le> Fin 0 \<and> breakevenMonth s = None then Some m
             else breakevenMonth s),
          cashData = cashData s @ [cash2]\<rparr>)"

function simLoop :: "runwayParams \<Rightarrow> int \<Rightarrow> simState \<Rightarrow> simState" where
  "simLoop runway m s =
     (if m \<le> 24 then simLoop runway (m + 1) (simStep runway m s) else s)"
  by pat_completeness auto
termination
  by (relation "measure (\<lambda>(runway, m, s). nat (25 - m))") auto

declare simLoop.simps [simp del]

definition simulate :: "runwayParams \<Rightarrow> simState" where
  "simulate runway =
     simLoop runway 1
       \<lparr>cash = startingCash runway, rev_s = monthlyRevenue runway, runwayMonths = 24,
        breakevenMonth = None, cashData = [startingCash runway]\<rparr>"

definition totalDilution :: "runwayParams \<Rightarrow> jsnum" where
  "totalDilution runway = safeCapPercent runway + optionPool runway"

definition founderOwnership :: "runwayParams \<Rightarrow> jsnum" where
  "founderOwnership runway = Math_max (Fin 0) (Fin 100 - totalDilution runway)"

definition runwayCheck :: "runwayParams \<Rightarrow> int \<times> flag list" where
  "runwayCheck runway =
     (if runwayMonths (simulate runway) \<ge> 18 then (20, [])
      else if runwayMonths (simulate runway) \<ge> 12 then (10, [])
      else if runwayMonths (simulate runway) \<ge> 6 then (3, [])
      else (0, [\<lparr>id_flag = ''runway_critical'', module = 3, severity = ''critical''\<rparr>]))"

definition runwayShortCheck :: "runwayParams \<Rightarrow> int \<times> flag list" where
  "runwayShortCheck runway =
     (if runwayMonths (simulate runway) < 18
      then (0, [\<lparr>id_flag = ''runway_short'', module = 3, severity = ''warning''\<rparr>])
      else (0, []))"

definition breakevenCheck :: "runwayParams \<Rightarrow> int \<times> flag list" where
  "breakevenCheck runway =
     (if (case breakevenMonth (simulate runway) of None \<Rightarrow> False | Some b \<Rightarrow> b \<le> 24)
      then (10, [])
      else (0, [\<lparr>id_flag = ''no_breakeven'', module = 3, severity = ''warning''\<rparr>]))"

definition dilutionCheck :: "runwayParams \<Rightarrow> int \<times> flag list" where
  "dilutionCheck runway =
     (if totalDilution runway \<le> Fin 25 then (5, [])
      else if totalDilution runway \<le> Fin 35 then (0, [])
      else (0, [\<lparr>id_flag = ''dilution_heavy'', module = 3, severity = ''warning''\<rparr>]))"

section \<open>The scoring engine\<close>

text \<open>
  The checks in the order in which \<^verbatim>\<open>computeScore\<close> runs them. The runway tiers and the
  separate \<^verbatim>\<open>if (runwayMonths < 18)\<close> that pushes \<^verbatim>\<open>runway_short\<close> are two checks.
\<close>

definition module1Checks :: "marketParams \<Rightarrow> (int \<times> flag list) list" where
  "module1Checks market = [tamCheck market, somPctCheck market, somAbsCheck market]"

definition module2Checks :: "unitParams \<Rightarrow> (int \<times> flag list) list" where
  "module2Checks unit = [ltvCacCheck unit, paybackCheck unit, marginCheck unit, churnCheck unit]"

definition module3Checks :: "runwayParams \<Rightarrow> (int \<times> flag list) list" where
  "module3Checks runway =
     [runwayCheck runway, runwayShortCheck runway, breakevenCheck runway, dilutionCheck runway]"

definition allChecks ::
  "marketParams \<Rightarrow> unitParams \<Rightarrow> runwayParams \<Rightarrow> (int \<times> flag list) list" where
  "allChecks market unit runway =
     module1Checks market @ module2Checks unit @ module3Checks runway"

text \<open>The value of the variable \<^verbatim>\<open>score\<close> when \<^verbatim>\<open>computeScore\<close> reaches its \<^verbatim>\<open>return\<close>.\<close>

definition rawScore :: "marketParams \<Rightarrow> unitParams \<Rightarrow> runwayParams \<Rightarrow> int" where
  "rawScore market unit runway = sum_list (map fst (allChecks market unit runway))"

definition computeScore :: "marketParams \<Rightarrow> unitParams \<Rightarrow> runwayParams \<Rightarrow> scoreResult" where
  "computeScore market unit runway =
     \<lparr>score = min 100 (max 0 (rawScore market unit runway)),
      flags = concat (map snd (allChecks market unit runway)),
      derived =
        \<lparr>d_sam = sam market, d_som = som market, d_ltv = ltv unit, d_payback = payback unit,
         d_ltvCac = ltvCac unit, d_avgLifespanMonths = avgLifespanMonths unit,
         d_runwayMonths = runwayMonths (simulate runway),
         d_breakevenMonth = breakevenMonth (simulate runway),
         d_cashData = cashData (simulate runway),
         d_founderOwnership = founderOwnership runway,
         d_totalDilution = totalDilution runway\<rparr>\<rparr>"

text \<open>\<^verbatim>\<open>checkModuleComplete(moduleId, flags, score)\<close>.\<close>

definition checkModuleComplete :: "int \<Rightarrow> flag list \<Rightarrow> int \<Rightarrow> bool" where
  "checkModuleComplete moduleId flags' score' =
     (let moduleFlags = filter (\<lambda>f. module f = moduleId) flags';
          hasCritical = list_ex (\<lambda>f. severity f = ''critical'') moduleFlags
      in \<not> hasCritical \<and> score' \<ge> 65)"

text \<open>The constant \<^verbatim>\<open>DEFAULTS\<close>.\<close>

definition DEFAULTS_market :: marketParams where
  "DEFAULTS_market =
     \<lparr>tam = Fin 5000000000, samPct = Fin 15, somPct = Fin 8, horizon = Fin 5,
      targetARR = Fin 10000000\<rparr>"

definition DEFAULTS_unit :: unitParams where
  "DEFAULTS_unit =
     \<lparr>price = Fin 99, billing = ''monthly'', grossMargin = Fin 55, cac = Fin 800,
      churnMonthly = Fin 5\<rparr>"

definition DEFAULTS_runway :: runwayParams where
  "DEFAULTS_runway =
     \<lparr>startingCash = Fin 1500000, totalMonthlyBurn = Fin 120000, burnHeadcount = Fin 60,
      burnInfra = Fin 20, burnOps = Fin 20, monthlyRevenue = Fin 15000,
      revenueGrowthMoM = Fin 8, fundraiseMonth = Fin 0, fundraiseAmount = Fin 0,
      safeCapPercent = Fin 20, optionPool = Fin 15\<rparr>"

section \<open>Quantities the properties speak about\<close>

text \<open>The points that the three market checks add to the score, taken together.\<close>

definition module1Score :: "marketParams \<Rightarrow> int" where
  "module1Score market = sum_list (map fst (module1Checks market))"

text \<open>
  The documented domains of the inputs, which the engine itself does not check (the editing
  surface clamps the values): every number is finite and not negative, a percentage is at
  most 100, \<^verbatim>\<open>tam\<close> is positive, \<^verbatim>\<open>horizon\<close> is a whole number of years from 1,
  \<^verbatim>\<open>fundraiseMonth\<close> is a whole number from 0 to 24, and \<^verbatim>\<open>billing\<close> is one of the two
  documented strings.
\<close>

definition amount :: "jsnum \<Rightarrow> bool" where
  "amount x = (isFin x \<and> Fin 0 \<le> x)"

definition pct :: "jsnum \<Rightarrow> bool" where
  "pct x = (Fin 0 \<le> x \<and> x \<le> Fin 100)"

fun whole :: "jsnum \<Rightarrow> bool" where
  "whole (Fin x) = (of_int \<lfloor>x\<rfloor> = x)"
| "whole PInf = False"
| "whole NInf = False"
| "whole NaN = False"

definition validMarket :: "marketParams \<Rightarrow> bool" where
  "validMarket market =
     (isFin (tam market) \<and> Fin 0 < tam market \<and> pct (samPct market) \<and> pct (somPct market) \<and>
      whole (horizon market) \<and> Fin 1 \<le> horizon market \<and> amount (targetARR market))"

definition validUnit :: "unitParams \<Rightarrow> bool" where
  "validUnit unit =
     (amount (price unit) \<and> (billing unit = ''monthly'' \<or> billing unit = ''annual'') \<and>
      pct (grossMargin unit) \<and> amount (cac unit) \<and> pct (churnMonthly unit))"

definition validRunway :: "runwayParams \<Rightarrow> bool" where
  "validRunway runway =
     (amount (startingCash runway) \<and> amount (totalMonthlyBurn runway) \<and>
      pct (burnHeadcount runway) \<and> pct (burnInfra runway) \<and> pct (burnOps runway) \<and>
      amount (monthlyRevenue runway) \<and> amount (revenueGrowthMoM runway) \<and>
      whole (fundraiseMonth runway) \<and> Fin 0 \<le> fundraiseMonth runway \<and>
      fundraiseMonth runway \<le> Fin 24 \<and> amount (fundraiseAmount runway) \<and>
      pct (safeCapPercent runway) \<and> pct (optionPool runway))"

text \<open>
  The cash simulation as the specification words it: a fold of 24 steps over the months
  1 to 24, in which the runway month is unset until the first month that ends with
  \<open>cash \<le> 0\<close>, and reads 24 at the end when it was never set.
\<close>

record specState =
  sp_cash :: jsnum
  sp_rev :: jsnum
  sp_runway :: "int option"
  sp_breakeven :: "int option"
  sp_cashData :: "jsnum list"

definition specStep :: "runwayParams \<Rightarrow> specState \<Rightarrow> int \<Rightarrow> specState" where
  "specStep runway t m =
     (let netBurn = totalMonthlyBurn runway - sp_rev t;
          afterBurn = sp_cash t - netBurn;
          afterRaise = (if Fin (of_int m) = fundraiseMonth runway \<and> Fin 0 < fundraiseAmount runway
                        then afterBurn + fundraiseAmount runway else afterBurn)
      in \<lparr>sp_cash = afterRaise,
          sp_rev = sp_rev t * (Fin 1 + revenueGrowthMoM runway / Fin 100),
          sp_runway = (case sp_runway t of
                         None \<Rightarrow> (if afterRaise \<le> Fin 0 then Some (m - 1) else None)
                       | Some k \<Rightarrow> Some k),
          sp_breakeven = (case sp_breakeven t of
                            None \<Rightarrow> (if netBurn \<le> Fin 0 then Some m else None)
                          | Some k \<Rightarrow> Some k),
          sp_cashData = sp_cashData t @ [afterRaise]\<rparr>)"

definition readout :: "specState \<Rightarrow> simState" where
  "readout t =
     \<lparr>cash = sp_cash t, rev_s = sp_rev t,
      runwayMonths = (case sp_runway t of None \<Rightarrow> 24 | Some k \<Rightarrow> k),
      breakevenMonth = sp_breakeven t, cashData = sp_cashData t\<rparr>"

definition specSimulate :: "runwayParams \<Rightarrow> simState" where
  "specSimulate runway =
     readout (foldl (specStep runway)
                \<lparr>sp_cash = startingCash runway, sp_rev = monthlyRevenue runway,
                 sp_runway = None, sp_breakeven = None,
                 sp_cashData = [startingCash runway]\<rparr> [1..24])"






text \<open>
  Two concrete inputs. In the first every check is in its best tier; the second is
  \<^verbatim>\<open>DEFAULTS.runway\<close> with a smaller seed and flat revenue, so that the first month already
  ends below zero.
\<close>

definition best_market :: marketParams where
  "best_market =
     \<lparr>tam = Fin 100000000000, samPct = Fin 50, somPct = Fin 5, horizon = Fin 5,
      targetARR = Fin 10000000\<rparr>"

definition best_unit :: unitParams where
  "best_unit =
     \<lparr>price = Fin 1000, billing = ''monthly'', grossMargin = Fin 80, cac = Fin 100,
      churnMonthly = Fin 1\<rparr>"

definition best_runway :: runwayParams where
  "best_runway =
     \<lparr>startingCash = Fin 1000000, totalMonthlyBurn = Fin 50000, burnHeadcount = Fin 60,
      burnInfra = Fin 20, burnOps = Fin 20, monthlyRevenue = Fin 60000,
      revenueGrowthMoM = Fin 0, fundraiseMonth = Fin 0, fundraiseAmount = Fin 0,
      safeCapPercent = Fin 10, optionPool = Fin 10\<rparr>"

definition broke_runway :: runwayParams where
  "broke_runway =
     \<lparr>startingCash = Fin 100000, totalMonthlyBurn = Fin 120000, burnHeadcount = Fin 60,
      burnInfra = Fin 20, burnOps = Fin 20, monthlyRevenue = Fin 15000,
      revenueGrowthMoM = Fin 0, fundraiseMonth = Fin 0, fundraiseAmount = Fin 0,
      safeCapPercent = Fin 20, optionPool = Fin 15\<rparr>"

text \<open>
  Two unit groups inside the documented domains at which a quotient overflows: at the
  first the lifetime value does, at the second all three quotients do.
\<close>

definition huge_unit :: unitParams where
  "huge_unit =
     \<lparr>price = Fin (2 ^ 1023), billing = ''monthly'', grossMargin = Fin 100, cac = Fin 800,
      churnMonthly = Fin 1\<rparr>"

definition overflow_unit :: unitParams where
  "overflow_unit =
     \<lparr>price = Fin (1 / 2), billing = ''monthly'', grossMargin = Fin 100, cac = Fin (2 ^ 1023),
      churnMonthly = Fin (1 / 2 ^ 1030)\<rparr>"



section \<open>The cash loop\<close>

lemmas valid_defs = validMarket_def validUnit_def validRunway_def amount_def pct_def

text \<open>Results far below the overflow bound are exact.\<close>

lemma overflowAt_big: "1000000000000000000000000000000 < overflowAt"
  by (simp add: overflowAt_def)

lemma ovf_small: "\<bar>r\<bar> \<le> 1000000000000000000000000000000 \<Longrightarrow> ovf r = Fin r"
  using overflowAt_big by (auto simp: ovf_def)

text \<open>Every turn of the loop pushes one value, and the loop makes \<open>25 - m\<close> turns from \<open>m\<close>.\<close>

lemma simLoop_cashData:
  "\<exists>ys. cashData (simLoop runway m s) = cashData s @ ys \<and> length ys = nat (25 - m)"
proof (induction runway m s rule: simLoop.induct)
  case (1 runway m s)
  show ?case
  proof (cases "m \<le> 24")
    case True
    from 1[OF True] obtain ys where
      ys: "cashData (simLoop runway (m + 1) (simStep runway m s)) =
             cashData (simStep runway m s) @ ys"
        "length ys = nat (25 - (m + 1))" by blast
    obtain c where c: "cashData (simStep runway m s) = cashData s @ [c]"
      by (simp add: simStep_def Let_def)
    have "cashData (simLoop runway m s) = cashData s @ (c # ys)"
      using True ys c by (simp add: simLoop.simps[of runway m s])
    moreover have "length (c # ys) = nat (25 - m)" using True ys(2) by simp
    ultimately show ?thesis by blast
  next
    case False
    then show ?thesis by (simp add: simLoop.simps[of runway m s])
  qed
qed

lemma simulate_cashData:
  "\<exists>ys. cashData (simulate runway) = startingCash runway # ys \<and> length ys = 24"
  using simLoop_cashData[of runway 1
      "\<lparr>cash = startingCash runway, rev_s = monthlyRevenue runway, runwayMonths = 24,
        breakevenMonth = None, cashData = [startingCash runway]\<rparr>"]
  by (auto simp: simulate_def)

text \<open>The loop writes \<open>m - 1\<close> with \<open>1 \<le> m \<le> 24\<close> or leaves \<^verbatim>\<open>runwayMonths\<close> alone.\<close>

lemma simLoop_runway_range:
  "1 \<le> m \<Longrightarrow> 0 \<le> runwayMonths s \<Longrightarrow> runwayMonths s \<le> 24 \<Longrightarrow>
   0 \<le> runwayMonths (simLoop runway m s) \<and> runwayMonths (simLoop runway m s) \<le> 24"
proof (induction runway m s rule: simLoop.induct)
  case (1 runway m s)
  show ?case
  proof (cases "m \<le> 24")
    case True
    have "0 \<le> runwayMonths (simStep runway m s) \<and> runwayMonths (simStep runway m s) \<le> 24"
      using 1(2,3,4) True by (simp add: simStep_def Let_def)
    with 1(1)[OF True] 1(2) have
      "0 \<le> runwayMonths (simLoop runway (m + 1) (simStep runway m s)) \<and>
       runwayMonths (simLoop runway (m + 1) (simStep runway m s)) \<le> 24" by simp
    then show ?thesis using True by (simp add: simLoop.simps[of runway m s])
  next
    case False
    then show ?thesis using 1(3,4) by (simp add: simLoop.simps[of runway m s])
  qed
qed

lemma simulate_runway_range:
  "0 \<le> runwayMonths (simulate runway) \<and> runwayMonths (simulate runway) \<le> 24"
  unfolding simulate_def by (rule simLoop_runway_range) simp_all

section \<open>Properties\<close>

text \<open>
  C4, as the code has it. The claim reads: for every valid input the returned
  \<^verbatim>\<open>runwayMonths\<close> is an integer in the range 1 to 24. The loop stores \<open>m - 1\<close> at the
  first month \<open>m\<close> that ends with \<open>cash \<le> 0\<close>, and that month can be month 1: the value
  returned is an integer from 0 to 24, for every input.
\<close>

theorem C4_runwayMonths_range:
  "0 \<le> d_runwayMonths (derived (computeScore market unit runway)) \<and>
   d_runwayMonths (derived (computeScore market unit runway)) \<le> 24"
  using simulate_runway_range[of runway] by (simp add: computeScore_def)

text \<open>
  C4 fails as stated: with a seed of 100,000 against a net burn of 105,000 a month, all
  fields inside their domains, the first month ends at -5,000 and \<^verbatim>\<open>runwayMonths\<close> is 0.
\<close>

theorem C4_runwayMonths_zero:
  "validMarket DEFAULTS_market \<and> validUnit DEFAULTS_unit \<and> validRunway broke_runway \<and>
   \<not> (1 \<le> d_runwayMonths (derived (computeScore DEFAULTS_market DEFAULTS_unit broke_runway)))"
  by (simp add: valid_defs DEFAULTS_market_def DEFAULTS_unit_def broke_runway_def
      computeScore_def simulate_def simLoop.simps simStep_def Let_def minus_jsnum_def
      ovf_small)

text \<open>
  C5: for every input the returned \<^verbatim>\<open>cashData\<close> has exactly 25 entries, the first of which
  (month 0) is the starting cash, and the \<^verbatim>\<open>horizon\<close> field of the market group has no
  influence on it.
\<close>

theorem C5_cashData_length:
  "length (d_cashData (derived (computeScore market unit runway))) = 25 \<and>
   d_cashData (derived (computeScore market unit runway)) ! 0 = startingCash runway \<and>
   d_cashData (derived (computeScore (market\<lparr>horizon := h\<rparr>) unit runway)) =
     d_cashData (derived (computeScore market unit runway))"
  using simulate_cashData[of runway] by (auto simp: computeScore_def)


text \<open>The loop writes a month \<open>m \<le> 24\<close> into \<^verbatim>\<open>breakevenMonth\<close> or leaves it alone.\<close>

lemma simLoop_breakeven_range:
  "(\<forall>b. breakevenMonth s = Some b \<longrightarrow> b \<le> 24) \<Longrightarrow>
   \<forall>b. breakevenMonth (simLoop runway m s) = Some b \<longrightarrow> b \<le> 24"
proof (induction runway m s rule: simLoop.induct)
  case (1 runway m s)
  show ?case
  proof (cases "m \<le> 24")
    case True
    have "\<forall>b. breakevenMonth (simStep runway m s) = Some b \<longrightarrow> b \<le> 24"
      using 1(2) True by (simp add: simStep_def Let_def)
    from 1(1)[OF True this] show ?thesis using True by (simp add: simLoop.simps[of runway m s])
  next
    case False
    then show ?thesis using 1(2) by (simp add: simLoop.simps[of runway m s])
  qed
qed

lemma simulate_breakeven_range:
  "breakevenMonth (simulate runway) = Some b \<Longrightarrow> b \<le> 24"
  using simLoop_breakeven_range[of
      "\<lparr>cash = startingCash runway, rev_s = monthlyRevenue runway, runwayMonths = 24,
        breakevenMonth = None, cashData = [startingCash runway]\<rparr>" runway 1]
  by (simp add: simulate_def)

subsection \<open>The points of the checks\<close>

lemma points_bounds_market:
  "0 \<le> fst (tamCheck market) \<and> fst (tamCheck market) \<le> 20"
  "0 \<le> fst (somPctCheck market) \<and> fst (somPctCheck market) \<le> 15"
  "0 \<le> fst (somAbsCheck market) \<and> fst (somAbsCheck market) \<le> 10"
  by (simp_all add: tamCheck_def somPctCheck_def somAbsCheck_def)

lemma points_bounds_unit:
  "0 \<le> fst (ltvCacCheck unit) \<and> fst (ltvCacCheck unit) \<le> 20"
  "0 \<le> fst (paybackCheck unit) \<and> fst (paybackCheck unit) \<le> 15"
  "0 \<le> fst (marginCheck unit) \<and> fst (marginCheck unit) \<le> 10"
  "fst (churnCheck unit) = 0"
  by (simp_all add: ltvCacCheck_def paybackCheck_def marginCheck_def churnCheck_def)

lemma points_bounds_runway:
  "0 \<le> fst (runwayCheck runway) \<and> fst (runwayCheck runway) \<le> 20"
  "fst (runwayShortCheck runway) = 0"
  "0 \<le> fst (breakevenCheck runway) \<and> fst (breakevenCheck runway) \<le> 10"
  "0 \<le> fst (dilutionCheck runway) \<and> fst (dilutionCheck runway) \<le> 5"
  by (simp_all add: runwayCheck_def runwayShortCheck_def breakevenCheck_def dilutionCheck_def)

lemma rawScore_sum:
  "rawScore market unit runway =
     fst (tamCheck market) + fst (somPctCheck market) + fst (somAbsCheck market) +
     fst (ltvCacCheck unit) + fst (paybackCheck unit) + fst (marginCheck unit) +
     fst (churnCheck unit) +
     fst (runwayCheck runway) + fst (runwayShortCheck runway) + fst (breakevenCheck runway) +
     fst (dilutionCheck runway)"
  by (simp add: rawScore_def allChecks_def module1Checks_def module2Checks_def module3Checks_def)

lemma rawScore_bounds: "0 \<le> rawScore market unit runway \<and> rawScore market unit runway \<le> 125"
  using points_bounds_market[of market] points_bounds_unit[of unit]
    points_bounds_runway[of runway]
  unfolding rawScore_sum by linarith

lemma rawScore_best:
  assumes "tam market \<ge> Fin 10000000000" "somPct market \<le> Fin 5" "som market \<ge> Fin 100000000"
    "ltvCac unit \<ge> Fin 5" "payback unit \<le> Fin 6" "grossMargin unit \<ge> Fin 70"
    "runwayMonths (simulate runway) \<ge> 18" "breakevenMonth (simulate runway) \<noteq> None"
    "totalDilution runway \<le> Fin 25"
  shows "rawScore market unit runway = 125"
proof -
  from assms(8) obtain b where b: "breakevenMonth (simulate runway) = Some b" by blast
  with simulate_breakeven_range have "b \<le> 24" by blast
  with b have "fst (breakevenCheck runway) = 10" by (simp add: breakevenCheck_def)
  moreover have "fst (runwayCheck runway) = 20" "fst (runwayShortCheck runway) = 0"
    using assms(7) by (simp_all add: runwayCheck_def runwayShortCheck_def)
  moreover have "fst (tamCheck market) = 20" "fst (somPctCheck market) = 15"
    "fst (somAbsCheck market) = 10" "fst (ltvCacCheck unit) = 20" "fst (paybackCheck unit) = 15"
    "fst (marginCheck unit) = 10" "fst (churnCheck unit) = 0" "fst (dilutionCheck runway) = 5"
    using assms by (simp_all add: tamCheck_def somPctCheck_def somAbsCheck_def ltvCacCheck_def
      paybackCheck_def marginCheck_def churnCheck_def dilutionCheck_def)
  ultimately show ?thesis unfolding rawScore_sum by simp
qed

text \<open>
  C1, as the code has it. The claim reads: the points of all checks sum to at most 100, the
  maximum being exactly 100, so that the final clamp never changes the sum. The best tiers
  are worth 20 + 15 + 10, 20 + 15 + 10 and 20 + 10 + 5 points, which is 125: for every input
  the sum lies between 0 and 125, it is 125 when every dimension is in its best tier, and
  the returned score is the smaller of the sum and 100 (the lower clamp at 0 never acts,
  the upper clamp acts on every sum above 100).
\<close>

theorem C1_rawScore_bounds:
  "0 \<le> rawScore market unit runway \<and> rawScore market unit runway \<le> 125 \<and>
   score (computeScore market unit runway) = min 100 (rawScore market unit runway) \<and>
   (tam market \<ge> Fin 10000000000 \<and> somPct market \<le> Fin 5 \<and>
    d_som (derived (computeScore market unit runway)) \<ge> Fin 100000000 \<and>
    d_ltvCac (derived (computeScore market unit runway)) \<ge> Fin 5 \<and>
    d_payback (derived (computeScore market unit runway)) \<le> Fin 6 \<and>
    grossMargin unit \<ge> Fin 70 \<and>
    d_runwayMonths (derived (computeScore market unit runway)) \<ge> 18 \<and>
    d_breakevenMonth (derived (computeScore market unit runway)) \<noteq> None \<and>
    d_totalDilution (derived (computeScore market unit runway)) \<le> Fin 25
    \<longrightarrow> rawScore market unit runway = 125)"
proof -
  have "score (computeScore market unit runway) = min 100 (rawScore market unit runway)"
    using rawScore_bounds[of market unit runway] by (simp add: computeScore_def)
  moreover have "tam market \<ge> Fin 10000000000 \<and> somPct market \<le> Fin 5 \<and>
    d_som (derived (computeScore market unit runway)) \<ge> Fin 100000000 \<and>
    d_ltvCac (derived (computeScore market unit runway)) \<ge> Fin 5 \<and>
    d_payback (derived (computeScore market unit runway)) \<le> Fin 6 \<and>
    grossMargin unit \<ge> Fin 70 \<and>
    d_runwayMonths (derived (computeScore market unit runway)) \<ge> 18 \<and>
    d_breakevenMonth (derived (computeScore market unit runway)) \<noteq> None \<and>
    d_totalDilution (derived (computeScore market unit runway)) \<le> Fin 25
    \<longrightarrow> rawScore market unit runway = 125"
    using rawScore_best[of market unit runway] by (simp add: computeScore_def)
  ultimately show ?thesis using rawScore_bounds[of market unit runway] by blast
qed

subsection \<open>Evaluation at concrete inputs\<close>

lemmas best_defs = best_market_def best_unit_def best_runway_def
lemmas metric_defs = sam_def som_def monthlyPrice_def grossRevPerMonth_def churnRate_def ltv_def
  payback_def ltvCac_def avgLifespanMonths_def totalDilution_def founderOwnership_def ovf_small
lemmas check_defs = tamCheck_def somPctCheck_def somAbsCheck_def ltvCacCheck_def
      paybackCheck_def marginCheck_def churnCheck_def runwayCheck_def runwayShortCheck_def
      breakevenCheck_def dilutionCheck_def

lemma simulate_best:
  "runwayMonths (simulate best_runway) = 24 \<and> breakevenMonth (simulate best_runway) = Some 1"
  by (simp add: best_runway_def simulate_def simLoop.simps simStep_def Let_def minus_jsnum_def
      ovf_small)

text \<open>
  C1 fails as stated: at an input inside the documented domains with every dimension in
  its best tier, the sum is 125, above 100, and the clamp changes it.
\<close>

theorem C1_rawScore_above_100:
  "validMarket best_market \<and> validUnit best_unit \<and> validRunway best_runway \<and>
   \<not> rawScore best_market best_unit best_runway \<le> 100 \<and>
   score (computeScore best_market best_unit best_runway) \<noteq>
     rawScore best_market best_unit best_runway"
proof -
  have v: "validMarket best_market \<and> validUnit best_unit \<and> validRunway best_runway"
    by (simp add: valid_defs best_defs)
  have "rawScore best_market best_unit best_runway = 125"
    using simulate_best
    by (intro rawScore_best) (simp_all add: best_defs metric_defs)
  then show ?thesis using v by (simp add: computeScore_def)
qed

text \<open>The best-tier hypothesis of C1 is met by that same input.\<close>

theorem C1_rawScore_bounds_witness:
  "(tam best_market \<ge> Fin 10000000000 \<and> somPct best_market \<le> Fin 5 \<and>
    d_som (derived (computeScore best_market best_unit best_runway)) \<ge> Fin 100000000 \<and>
    d_ltvCac (derived (computeScore best_market best_unit best_runway)) \<ge> Fin 5 \<and>
    d_payback (derived (computeScore best_market best_unit best_runway)) \<le> Fin 6 \<and>
    grossMargin best_unit \<ge> Fin 70 \<and>
    d_runwayMonths (derived (computeScore best_market best_unit best_runway)) \<ge> 18 \<and>
    d_breakevenMonth (derived (computeScore best_market best_unit best_runway)) \<noteq> None \<and>
    d_totalDilution (derived (computeScore best_market best_unit best_runway)) \<le> Fin 25) \<and>
   rawScore best_market best_unit best_runway = 125 \<and>
   score (computeScore best_market best_unit best_runway) = 100"
proof -
  have p: "tam best_market \<ge> Fin 10000000000 \<and> somPct best_market \<le> Fin 5 \<and>
    d_som (derived (computeScore best_market best_unit best_runway)) \<ge> Fin 100000000 \<and>
    d_ltvCac (derived (computeScore best_market best_unit best_runway)) \<ge> Fin 5 \<and>
    d_payback (derived (computeScore best_market best_unit best_runway)) \<le> Fin 6 \<and>
    grossMargin best_unit \<ge> Fin 70 \<and>
    d_runwayMonths (derived (computeScore best_market best_unit best_runway)) \<ge> 18 \<and>
    d_breakevenMonth (derived (computeScore best_market best_unit best_runway)) \<noteq> None \<and>
    d_totalDilution (derived (computeScore best_market best_unit best_runway)) \<le> Fin 25"
    using simulate_best by (simp add: computeScore_def best_defs metric_defs)
  with C1_rawScore_bounds[of best_market best_unit best_runway] show ?thesis
    by simp
qed


subsection \<open>The loop as a fold\<close>

text \<open>The loop from \<open>m\<close> is the fold of its body over the months \<open>m\<close> to 24.\<close>

lemma simLoop_foldl:
  "simLoop runway m s = foldl (\<lambda>s m. simStep runway m s) s [m..24]"
proof (induction runway m s rule: simLoop.induct)
  case (1 runway m s)
  show ?case
  proof (cases "m \<le> 24")
    case True
    then have "[m..24] = m # [m + 1..24]" by (rule upto_rec1)
    with 1[OF True] True show ?thesis by (simp add: simLoop.simps[of runway m s])
  next
    case False
    then show ?thesis by (simp add: simLoop.simps[of runway m s])
  qed
qed

text \<open>
  The variable \<^verbatim>\<open>runwayMonths\<close> doubles as its own "not yet set" mark, the value 24. The
  body only ever stores \<open>m - 1 \<le> 23\<close>, so the mark is never confused with a stored month.
\<close>

lemma simStep_readout:
  assumes "m \<le> 24" "sp_runway t \<noteq> Some 24"
  shows "simStep runway m (readout t) = readout (specStep runway t m)"
    and "sp_runway (specStep runway t m) \<noteq> Some 24"
  using assms
  by (auto simp: simStep_def specStep_def readout_def Let_def split: option.splits)

lemma foldl_readout:
  "\<forall>m\<in>set ms. m \<le> 24 \<Longrightarrow> sp_runway t \<noteq> Some 24 \<Longrightarrow>
   foldl (\<lambda>s m. simStep runway m s) (readout t) ms = readout (foldl (specStep runway) t ms)"
proof (induction ms arbitrary: t)
  case Nil
  show ?case by simp
next
  case (Cons m ms)
  from Cons.prems have m: "m \<le> 24" by simp
  have "foldl (\<lambda>s m. simStep runway m s) (readout (specStep runway t m)) ms =
        readout (foldl (specStep runway) (specStep runway t m) ms)"
    using Cons.prems simStep_readout(2)[OF m Cons.prems(2)] by (intro Cons.IH) simp_all
  then show ?case using simStep_readout(1)[OF m Cons.prems(2)] by simp
qed

lemma simulate_specSimulate: "simulate runway = specSimulate runway"
proof -
  let ?t = "\<lparr>sp_cash = startingCash runway, sp_rev = monthlyRevenue runway,
             sp_runway = None, sp_breakeven = None, sp_cashData = [startingCash runway]\<rparr>"
  have "simulate runway = foldl (\<lambda>s m. simStep runway m s) (readout ?t) [1..24]"
    by (simp add: simulate_def simLoop_foldl readout_def)
  also have "\<dots> = readout (foldl (specStep runway) ?t [1..24])"
    by (rule foldl_readout) simp_all
  finally show ?thesis by (simp add: specSimulate_def)
qed

text \<open>
  C2: the cash loop of \<^verbatim>\<open>computeScore\<close> equals the reference fold of 24 steps: from
  \<open>cash = startingCash\<close> and \<open>rev = monthlyRevenue\<close>, each month \<open>m = 1..24\<close> subtracts
  \<open>netBurn = totalMonthlyBurn - rev\<close>, adds the fundraise in its month when the amount is
  positive, appends the cash, fixes \<^verbatim>\<open>runwayMonths\<close> to \<open>m - 1\<close> at the first month with
  \<open>cash \<le> 0\<close> (24 if there is none) and \<^verbatim>\<open>breakevenMonth\<close> to \<open>m\<close> at the first month with
  \<open>netBurn \<le> 0\<close> (null if there is none), and grows \<open>rev\<close> last; all 24 steps always run.
  The returned \<^verbatim>\<open>cashData\<close>, \<^verbatim>\<open>runwayMonths\<close> and \<^verbatim>\<open>breakevenMonth\<close> are those of the fold.
\<close>

theorem C2_simulate_refines:
  "simulate runway = specSimulate runway \<and>
   d_cashData (derived (computeScore market unit runway)) = cashData (specSimulate runway) \<and>
   d_runwayMonths (derived (computeScore market unit runway)) =
     runwayMonths (specSimulate runway) \<and>
   d_breakevenMonth (derived (computeScore market unit runway)) =
     breakevenMonth (specSimulate runway)"
  by (simp add: simulate_specSimulate computeScore_def)


subsection \<open>The flags of the checks\<close>

text \<open>The returned flags are the flags of the checks, in the order of the checks.\<close>

lemma flags_computeScore:
  "flags (computeScore market unit runway) =
     snd (tamCheck market) @ snd (somPctCheck market) @ snd (somAbsCheck market) @
     snd (ltvCacCheck unit) @ snd (paybackCheck unit) @ snd (marginCheck unit) @
     snd (churnCheck unit) @
     snd (runwayCheck runway) @ snd (runwayShortCheck runway) @ snd (breakevenCheck runway) @
     snd (dilutionCheck runway)"
  by (simp add: computeScore_def allChecks_def module1Checks_def module2Checks_def
      module3Checks_def)

lemma som_flags_elsewhere:
  "''som_abs'' \<notin> id_flag ` set (snd (tamCheck market))"
  "''som_abs'' \<notin> id_flag ` set (snd (somPctCheck market))"
  "''som_abs'' \<notin> id_flag ` set (snd (ltvCacCheck unit))"
  "''som_abs'' \<notin> id_flag ` set (snd (paybackCheck unit))"
  "''som_abs'' \<notin> id_flag ` set (snd (marginCheck unit))"
  "''som_abs'' \<notin> id_flag ` set (snd (churnCheck unit))"
  "''som_abs'' \<notin> id_flag ` set (snd (runwayCheck runway))"
  "''som_abs'' \<notin> id_flag ` set (snd (runwayShortCheck runway))"
  "''som_abs'' \<notin> id_flag ` set (snd (breakevenCheck runway))"
  "''som_abs'' \<notin> id_flag ` set (snd (dilutionCheck runway))"
  "''som_high'' \<notin> id_flag ` set (snd (tamCheck market))"
  "''som_high'' \<notin> id_flag ` set (snd (somAbsCheck market))"
  "''som_high'' \<notin> id_flag ` set (snd (ltvCacCheck unit))"
  "''som_high'' \<notin> id_flag ` set (snd (paybackCheck unit))"
  "''som_high'' \<notin> id_flag ` set (snd (marginCheck unit))"
  "''som_high'' \<notin> id_flag ` set (snd (churnCheck unit))"
  "''som_high'' \<notin> id_flag ` set (snd (runwayCheck runway))"
  "''som_high'' \<notin> id_flag ` set (snd (runwayShortCheck runway))"
  "''som_high'' \<notin> id_flag ` set (snd (breakevenCheck runway))"
  "''som_high'' \<notin> id_flag ` set (snd (dilutionCheck runway))"
  by (simp_all add: check_defs)

lemma som_abs_flag_iff:
  "''som_abs'' \<in> set (map id_flag (flags (computeScore market unit runway))) \<longleftrightarrow>
   \<not> som market \<ge> Fin 30000000 \<and> \<not> som market \<ge> Fin 100000000"
proof -
  have "''som_abs'' \<in> set (map id_flag (snd (somAbsCheck market))) \<longleftrightarrow>
        \<not> som market \<ge> Fin 30000000 \<and> \<not> som market \<ge> Fin 100000000"
    by (simp add: somAbsCheck_def)
  then show ?thesis
    unfolding flags_computeScore by (simp add: som_flags_elsewhere)
qed

lemma som_high_flag_iff:
  "''som_high'' \<in> set (map id_flag (flags (computeScore market unit runway))) \<longleftrightarrow>
   \<not> somPct market \<le> Fin 5 \<and> \<not> somPct market \<le> Fin 10"
proof -
  have "''som_high'' \<in> set (map id_flag (snd (somPctCheck market))) \<longleftrightarrow>
        \<not> somPct market \<le> Fin 5 \<and> \<not> somPct market \<le> Fin 10"
    by (simp add: somPctCheck_def)
  then show ?thesis
    unfolding flags_computeScore by (simp add: som_flags_elsewhere)
qed

text \<open>
  C3, as the code has it. The claim reads: for \<open>tam = 5e9\<close>, \<open>samPct = 15\<close>, \<open>somPct = 8\<close>
  (the defaults, the other fields arbitrary) \<^verbatim>\<open>computeScore\<close> returns \<open>sam = 750,000,000\<close> and
  \<open>som = 60,000,000\<close>, the SOM-percent check awards 8 points without the flag
  \<^verbatim>\<open>som_high\<close>, and the SOM-absolute check awards 5 points and the flag \<^verbatim>\<open>som_abs\<close> is
  present. All of it holds but the last part: a check that awards points pushes no flag,
  so \<^verbatim>\<open>som_abs\<close> is absent from the returned flags.
\<close>

theorem C3_defaults_market:
  assumes "tam market = Fin 5000000000" "samPct market = Fin 15" "somPct market = Fin 8"
  shows "d_sam (derived (computeScore market unit runway)) = Fin 750000000 \<and>
         d_som (derived (computeScore market unit runway)) = Fin 60000000 \<and>
         somPctCheck market = (8, []) \<and>
         ''som_high'' \<notin> set (map id_flag (flags (computeScore market unit runway))) \<and>
         somAbsCheck market = (5, []) \<and>
         ''som_abs'' \<notin> set (map id_flag (flags (computeScore market unit runway)))"
proof -
  have s: "sam market = Fin 750000000" "som market = Fin 60000000"
    using assms by (simp_all add: sam_def som_def ovf_small)
  then have "d_sam (derived (computeScore market unit runway)) = Fin 750000000"
    "d_som (derived (computeScore market unit runway)) = Fin 60000000"
    by (simp_all add: computeScore_def)
  moreover have "somPctCheck market = (8, [])" "somAbsCheck market = (5, [])"
    using assms s by (simp_all add: somPctCheck_def somAbsCheck_def)
  moreover have "''som_high'' \<notin> set (map id_flag (flags (computeScore market unit runway)))"
    unfolding som_high_flag_iff using assms by simp
  moreover have "''som_abs'' \<notin> set (map id_flag (flags (computeScore market unit runway)))"
    unfolding som_abs_flag_iff using s by simp
  ultimately show ?thesis by blast
qed

text \<open>C3 fails as stated: at \<^verbatim>\<open>DEFAULTS\<close> the returned flags do not contain \<^verbatim>\<open>som_abs\<close>.\<close>

theorem C3_som_abs_absent:
  "''som_abs'' \<notin>
     set (map id_flag (flags (computeScore DEFAULTS_market DEFAULTS_unit DEFAULTS_runway)))"
proof -
  have "som DEFAULTS_market = Fin 60000000"
    by (simp add: DEFAULTS_market_def sam_def som_def ovf_small)
  then show ?thesis unfolding som_abs_flag_iff by simp
qed

text \<open>The hypotheses of C3 are those of \<^verbatim>\<open>DEFAULTS.market\<close>.\<close>

theorem C3_defaults_market_witness:
  "tam DEFAULTS_market = Fin 5000000000 \<and> samPct DEFAULTS_market = Fin 15 \<and>
   somPct DEFAULTS_market = Fin 8 \<and>
   d_sam (derived (computeScore DEFAULTS_market DEFAULTS_unit DEFAULTS_runway)) = Fin 750000000 \<and>
   d_som (derived (computeScore DEFAULTS_market DEFAULTS_unit DEFAULTS_runway)) = Fin 60000000 \<and>
   somPctCheck DEFAULTS_market = (8, []) \<and> somAbsCheck DEFAULTS_market = (5, [])"
proof -
  have h: "tam DEFAULTS_market = Fin 5000000000" "samPct DEFAULTS_market = Fin 15"
    "somPct DEFAULTS_market = Fin 8"
    by (simp_all add: DEFAULTS_market_def)
  from C3_defaults_market[OF h, of DEFAULTS_unit DEFAULTS_runway] h show ?thesis by simp
qed

subsection \<open>Inputs inside their domains are finite\<close>

lemma isFin_Fin: "isFin x \<Longrightarrow> \<exists>r. x = Fin r"
  by (cases x) simp_all

lemma amount_Fin: "amount x \<Longrightarrow> \<exists>r. x = Fin r \<and> 0 \<le> r"
  by (cases x) (simp_all add: amount_def)

lemma pct_Fin: "pct x \<Longrightarrow> \<exists>r. x = Fin r \<and> 0 \<le> r \<and> r \<le> 100"
  by (cases x) (simp_all add: pct_def)

text \<open>
  C7: \<^verbatim>\<open>checkModuleComplete(moduleId, flags, score)\<close> is true if and only if no flag of
  the module \<^verbatim>\<open>moduleId\<close> has the severity \<^verbatim>\<open>critical\<close> and the global score is at least 65;
  in particular a module without any flag is incomplete whenever the score is below 65.
\<close>

theorem C7_checkModuleComplete:
  "(checkModuleComplete moduleId fl sc \<longleftrightarrow>
      (\<forall>f\<in>set fl. module f = moduleId \<longrightarrow> severity f \<noteq> ''critical'') \<and> sc \<ge> 65) \<and>
   (filter (\<lambda>f. module f = moduleId) fl = [] \<and> sc < 65 \<longrightarrow>
      \<not> checkModuleComplete moduleId fl sc)"
  by (auto simp: checkModuleComplete_def list_ex_iff)

text \<open>
  One critical flag of module 2: module 1 has no flag and is incomplete at score 60,
  complete at 65; module 2 is incomplete at 65.
\<close>

theorem C7_checkModuleComplete_witness:
  "filter (\<lambda>f. module f = 1)
     [\<lparr>id_flag = ''ltvcac_low'', module = 2, severity = ''critical''\<rparr>] = [] \<and> (60::int) < 65 \<and>
   \<not> checkModuleComplete 1 [\<lparr>id_flag = ''ltvcac_low'', module = 2, severity = ''critical''\<rparr>] 60 \<and>
   checkModuleComplete 1 [\<lparr>id_flag = ''ltvcac_low'', module = 2, severity = ''critical''\<rparr>] 65 \<and>
   \<not> checkModuleComplete 2 [\<lparr>id_flag = ''ltvcac_low'', module = 2, severity = ''critical''\<rparr>] 65"
  using C7_checkModuleComplete[of 1 "[\<lparr>id_flag = ''ltvcac_low'', module = 2, severity = ''critical''\<rparr>]" 60]
    C7_checkModuleComplete[of 1 "[\<lparr>id_flag = ''ltvcac_low'', module = 2, severity = ''critical''\<rparr>]" 65]
    C7_checkModuleComplete[of 2 "[\<lparr>id_flag = ''ltvcac_low'', module = 2, severity = ''critical''\<rparr>]" 65]
  by simp


subsection \<open>Which checks flag which module\<close>

lemma Fin_le_weaken: "Fin a \<le> x \<Longrightarrow> b \<le> a \<Longrightarrow> Fin b \<le> x"
  by (cases x) simp_all

lemma le_Fin_weaken: "x \<le> Fin a \<Longrightarrow> a \<le> b \<Longrightarrow> x \<le> Fin b"
  by (cases x) simp_all

lemma not_le_Fin_less: "isFin x \<Longrightarrow> (\<not> Fin a \<le> x) = (x < Fin a)"
  by (cases x) auto

lemma module1_flags:
  "1 \<in> module ` set (snd (tamCheck market)) \<longleftrightarrow> \<not> tam market \<ge> Fin 1000000000"
  "1 \<in> module ` set (snd (somPctCheck market)) \<longleftrightarrow> \<not> somPct market \<le> Fin 10"
  "1 \<in> module ` set (snd (somAbsCheck market)) \<longleftrightarrow> \<not> som market \<ge> Fin 30000000"
  "1 \<notin> module ` set (snd (ltvCacCheck unit))"
  "1 \<notin> module ` set (snd (paybackCheck unit))"
  "1 \<notin> module ` set (snd (marginCheck unit))"
  "1 \<notin> module ` set (snd (churnCheck unit))"
  "1 \<notin> module ` set (snd (runwayCheck runway))"
  "1 \<notin> module ` set (snd (runwayShortCheck runway))"
  "1 \<notin> module ` set (snd (breakevenCheck runway))"
  "1 \<notin> module ` set (snd (dilutionCheck runway))"
  using Fin_le_weaken[of 10000000000 "tam market" 1000000000]
    le_Fin_weaken[of "somPct market" 5 10]
    Fin_le_weaken[of 100000000 "som market" 30000000]
  by (auto simp: check_defs)

lemma module2_flags:
  "2 \<notin> module ` set (snd (tamCheck market))"
  "2 \<notin> module ` set (snd (somPctCheck market))"
  "2 \<notin> module ` set (snd (somAbsCheck market))"
  "2 \<in> module ` set (snd (ltvCacCheck unit)) \<longleftrightarrow> \<not> ltvCac unit \<ge> Fin 2"
  "2 \<in> module ` set (snd (paybackCheck unit)) \<longleftrightarrow> \<not> payback unit \<le> Fin 12"
  "2 \<in> module ` set (snd (marginCheck unit)) \<longleftrightarrow> \<not> grossMargin unit \<ge> Fin 60"
  "2 \<in> module ` set (snd (churnCheck unit)) \<longleftrightarrow> churnMonthly unit \<ge> Fin 5"
  "2 \<notin> module ` set (snd (runwayCheck runway))"
  "2 \<notin> module ` set (snd (runwayShortCheck runway))"
  "2 \<notin> module ` set (snd (breakevenCheck runway))"
  "2 \<notin> module ` set (snd (dilutionCheck runway))"
  using Fin_le_weaken[of 5 "ltvCac unit" 2] Fin_le_weaken[of 3 "ltvCac unit" 2]
    le_Fin_weaken[of "payback unit" 6 12]
    Fin_le_weaken[of 70 "grossMargin unit" 60]
  by (auto simp: check_defs)

lemma module3_flags:
  "3 \<notin> module ` set (snd (tamCheck market))"
  "3 \<notin> module ` set (snd (somPctCheck market))"
  "3 \<notin> module ` set (snd (somAbsCheck market))"
  "3 \<notin> module ` set (snd (ltvCacCheck unit))"
  "3 \<notin> module ` set (snd (paybackCheck unit))"
  "3 \<notin> module ` set (snd (marginCheck unit))"
  "3 \<notin> module ` set (snd (churnCheck unit))"
  "3 \<in> module ` set (snd (runwayCheck runway)) \<longleftrightarrow> \<not> runwayMonths (simulate runway) \<ge> 6"
  "3 \<in> module ` set (snd (runwayShortCheck runway)) \<longleftrightarrow> runwayMonths (simulate runway) < 18"
  "3 \<in> module ` set (snd (breakevenCheck runway)) \<longleftrightarrow> breakevenMonth (simulate runway) = None"
  "3 \<in> module ` set (snd (dilutionCheck runway)) \<longleftrightarrow> \<not> totalDilution runway \<le> Fin 35"
  using le_Fin_weaken[of "totalDilution runway" 25 35] simulate_breakeven_range[of runway]
  by (auto simp: check_defs split: option.splits)

text \<open>
  C8: for every valid input and each module, the returned flags contain no flag of that
  module if and only if each of its checks passes: module 1 iff \<open>tam \<ge> 1e9\<close>,
  \<open>somPct \<le> 10\<close> and \<open>som \<ge> 30e6\<close>; module 2 iff \<open>ltvCac \<ge> 2\<close>, \<open>payback \<le> 12\<close>,
  \<open>grossMargin \<ge> 60\<close> and \<open>churnMonthly < 5\<close>; module 3 iff \<open>runwayMonths \<ge> 18\<close>,
  \<^verbatim>\<open>breakevenMonth\<close> is not null and \<open>totalDilution \<le> 35\<close>.
\<close>

theorem C8_module_flags_empty:
  assumes "validMarket market" "validUnit unit" "validRunway runway"
  shows "(1 \<notin> set (map module (flags (computeScore market unit runway))) \<longleftrightarrow>
            tam market \<ge> Fin 1000000000 \<and> somPct market \<le> Fin 10 \<and>
            d_som (derived (computeScore market unit runway)) \<ge> Fin 30000000) \<and>
         (2 \<notin> set (map module (flags (computeScore market unit runway))) \<longleftrightarrow>
            d_ltvCac (derived (computeScore market unit runway)) \<ge> Fin 2 \<and>
            d_payback (derived (computeScore market unit runway)) \<le> Fin 12 \<and>
            grossMargin unit \<ge> Fin 60 \<and> churnMonthly unit < Fin 5) \<and>
         (3 \<notin> set (map module (flags (computeScore market unit runway))) \<longleftrightarrow>
            d_runwayMonths (derived (computeScore market unit runway)) \<ge> 18 \<and>
            d_breakevenMonth (derived (computeScore market unit runway)) \<noteq> None \<and>
            d_totalDilution (derived (computeScore market unit runway)) \<le> Fin 35)"
proof -
  have d: "d_som (derived (computeScore market unit runway)) = som market"
    "d_ltvCac (derived (computeScore market unit runway)) = ltvCac unit"
    "d_payback (derived (computeScore market unit runway)) = payback unit"
    "d_runwayMonths (derived (computeScore market unit runway)) = runwayMonths (simulate runway)"
    "d_breakevenMonth (derived (computeScore market unit runway)) =
       breakevenMonth (simulate runway)"
    "d_totalDilution (derived (computeScore market unit runway)) = totalDilution runway"
    by (simp_all add: computeScore_def)
  from assms(2) have "isFin (churnMonthly unit)"
    using pct_Fin[of "churnMonthly unit"] by (auto simp: validUnit_def)
  then have c: "(\<not> Fin 5 \<le> churnMonthly unit) = (churnMonthly unit < Fin 5)"
    by (rule not_le_Fin_less)
  have "1 \<notin> set (map module (flags (computeScore market unit runway))) \<longleftrightarrow>
          tam market \<ge> Fin 1000000000 \<and> somPct market \<le> Fin 10 \<and> som market \<ge> Fin 30000000"
    unfolding flags_computeScore by (auto simp: module1_flags)
  moreover have "2 \<notin> set (map module (flags (computeScore market unit runway))) \<longleftrightarrow>
          ltvCac unit \<ge> Fin 2 \<and> payback unit \<le> Fin 12 \<and> grossMargin unit \<ge> Fin 60 \<and>
          churnMonthly unit < Fin 5"
    unfolding flags_computeScore by (auto simp: module2_flags c)
  moreover have "3 \<notin> set (map module (flags (computeScore market unit runway))) \<longleftrightarrow>
          runwayMonths (simulate runway) \<ge> 18 \<and> breakevenMonth (simulate runway) \<noteq> None \<and>
          totalDilution runway \<le> Fin 35"
    unfolding flags_computeScore by (auto simp: module3_flags)
  ultimately show ?thesis unfolding d by blast
qed

text \<open>At the best-tier input no module has a flag.\<close>

theorem C8_module_flags_empty_witness:
  "validMarket best_market \<and> validUnit best_unit \<and> validRunway best_runway \<and>
   1 \<notin> set (map module (flags (computeScore best_market best_unit best_runway))) \<and>
   2 \<notin> set (map module (flags (computeScore best_market best_unit best_runway))) \<and>
   3 \<notin> set (map module (flags (computeScore best_market best_unit best_runway)))"
proof -
  have v: "validMarket best_market" "validUnit best_unit" "validRunway best_runway"
    by (simp_all add: valid_defs best_defs)
  have "tam best_market \<ge> Fin 1000000000 \<and> somPct best_market \<le> Fin 10 \<and>
        d_som (derived (computeScore best_market best_unit best_runway)) \<ge> Fin 30000000 \<and>
        d_ltvCac (derived (computeScore best_market best_unit best_runway)) \<ge> Fin 2 \<and>
        d_payback (derived (computeScore best_market best_unit best_runway)) \<le> Fin 12 \<and>
        grossMargin best_unit \<ge> Fin 60 \<and> churnMonthly best_unit < Fin 5 \<and>
        d_runwayMonths (derived (computeScore best_market best_unit best_runway)) \<ge> 18 \<and>
        d_breakevenMonth (derived (computeScore best_market best_unit best_runway)) \<noteq> None \<and>
        d_totalDilution (derived (computeScore best_market best_unit best_runway)) \<le> Fin 35"
    using simulate_best by (simp add: computeScore_def best_defs metric_defs)
  with C8_module_flags_empty[OF v] v show ?thesis by blast
qed

subsection \<open>The market points grow with the market\<close>

text \<open>Overflow keeps the order, and a percentage over 100 is a factor from 0 to 1.\<close>

lemma overflowAt_pos: "0 < overflowAt"
  using overflowAt_big by simp

lemma ovf_mono: "r \<le> r' \<Longrightarrow> ovf r \<le> ovf r'"
  using overflowAt_pos by (auto simp: ovf_def)

lemma ovf_not_NaN: "ovf r \<noteq> NaN"
  by (simp add: ovf_def)

lemma pct_div_100: "pct x \<Longrightarrow> \<exists>k. x / Fin 100 = Fin k \<and> 0 \<le> k \<and> k \<le> 1"
proof -
  assume "pct x"
  then obtain r where r: "x = Fin r" "0 \<le> r" "r \<le> 100" using pct_Fin by blast
  then have "\<bar>r / 100\<bar> \<le> 1000000000000000000000000000000" by simp
  then have "ovf (r / 100) = Fin (r / 100)" by (rule ovf_small)
  with r have "x / Fin 100 = Fin (r / 100)" "0 \<le> r / 100" "r / 100 \<le> 1" by simp_all
  then show ?thesis by blast
qed

text \<open>
  Scaling by a factor \<open>k \<ge> 0\<close> keeps the order, unless the smaller product is 0, NaN or
  \<open>-\<infinity>\<close> (an infinity times 0 is NaN).
\<close>

lemma times_scale_mono:
  assumes "x \<le> y" "0 \<le> k"
  shows "x * Fin k \<le> y * Fin k \<or> x * Fin k = Fin 0 \<or> x * Fin k = NaN \<or> x * Fin k = NInf"
proof (cases x)
  case (Fin a)
  show ?thesis
  proof (cases y)
    case (Fin b)
    with \<open>x = Fin a\<close> assms have "a * k \<le> b * k" by (simp add: mult_right_mono)
    then have "ovf (a * k) \<le> ovf (b * k)" by (rule ovf_mono)
    then show ?thesis using \<open>x = Fin a\<close> Fin by simp
  next
    case PInf
    show ?thesis
    proof (cases "k = 0")
      case True
      then show ?thesis using Fin overflowAt_pos by (simp add: ovf_def)
    next
      case False
      with assms(2) have "0 < k" by simp
      then have "y * Fin k = PInf" using PInf by simp
      moreover have "x * Fin k \<noteq> NaN" using Fin by (simp add: ovf_not_NaN)
      ultimately show ?thesis by (cases "x * Fin k") simp_all
    qed
  next
    case NInf
    then show ?thesis using Fin assms(1) by simp
  next
    case NaN
    then show ?thesis using Fin assms(1) by simp
  qed
next
  case PInf
  with assms(1) have y: "y = PInf" by (cases y) simp_all
  show ?thesis using PInf y assms(2) by (cases "k = 0") auto
next
  case NInf
  then show ?thesis using assms(2) by (cases "k = 0") auto
next
  case NaN
  then show ?thesis using assms(1) by simp
qed


text \<open>
  With both percentages in 0 to 100, a larger \<^verbatim>\<open>tam\<close> gives a larger \<^verbatim>\<open>som\<close>, unless
  \<^verbatim>\<open>som\<close> was 0, NaN or \<open>-\<infinity>\<close> before, which earns no points anyway.
\<close>

lemma som_mono:
  assumes "tam market \<le> t'" "pct (samPct market)" "pct (somPct market)"
  shows "som market \<le> som (market\<lparr>tam := t'\<rparr>) \<or> som market = Fin 0 \<or> som market = NaN
    \<or> som market = NInf"
proof -
  from assms(2,3) obtain p q where
    pq: "samPct market / Fin 100 = Fin p" "0 \<le> p" "somPct market / Fin 100 = Fin q" "0 \<le> q"
    using pct_div_100 by blast
  have s: "sam market = tam market * Fin p" "sam (market\<lparr>tam := t'\<rparr>) = t' * Fin p"
    "som market = sam market * Fin q"
    "som (market\<lparr>tam := t'\<rparr>) = sam (market\<lparr>tam := t'\<rparr>) * Fin q"
    using pq by (simp_all add: sam_def som_def)
  from times_scale_mono[OF assms(1) pq(2)] consider
    "sam market \<le> sam (market\<lparr>tam := t'\<rparr>)" | "sam market = Fin 0" | "sam market = NaN"
    | "sam market = NInf"
    unfolding s by blast
  then show ?thesis
  proof cases
    case 1
    from times_scale_mono[OF this pq(4)] show ?thesis unfolding s .
  next
    case 2
    then show ?thesis using overflowAt_pos by (simp add: s(3) ovf_def)
  next
    case 3
    then show ?thesis by (simp add: s(3))
  next
    case 4
    then show ?thesis using pq(4) by (cases "q = 0") (auto simp: s(3))
  qed
qed

lemma tamCheck_mono:
  "tam market \<le> t' \<Longrightarrow> fst (tamCheck market) \<le> fst (tamCheck (market\<lparr>tam := t'\<rparr>))"
  by (cases "tam market"; cases t') (auto simp: tamCheck_def)

lemma somAbsCheck_mono:
  assumes "tam market \<le> t'" "pct (samPct market)" "pct (somPct market)"
  shows "fst (somAbsCheck market) \<le> fst (somAbsCheck (market\<lparr>tam := t'\<rparr>))"
proof -
  consider "som market \<le> som (market\<lparr>tam := t'\<rparr>)"
    | "som market = Fin 0 \<or> som market = NaN \<or> som market = NInf"
    using som_mono[OF assms] by blast
  then show ?thesis
  proof cases
    case 1
    then show ?thesis
      by (cases "som market"; cases "som (market\<lparr>tam := t'\<rparr>)") (auto simp: somAbsCheck_def)
  next
    case 2
    then have "fst (somAbsCheck market) = 0" by (auto simp: somAbsCheck_def)
    then show ?thesis using points_bounds_market(3)[of "market\<lparr>tam := t'\<rparr>"] by simp
  qed
qed

lemma somPctCheck_tam: "somPctCheck (market\<lparr>tam := t'\<rparr>) = somPctCheck market"
  by (simp add: somPctCheck_def)

text \<open>
  C9: with \<^verbatim>\<open>samPct\<close> and \<^verbatim>\<open>somPct\<close> in 0 to 100 and everything else fixed, the points of
  the three market checks (TAM size, SOM percent, SOM absolute) taken together do not
  decrease when \<^verbatim>\<open>tam\<close> increases.
\<close>

theorem C9_module1_monotone:
  assumes "tam market \<le> t'" "pct (samPct market)" "pct (somPct market)"
  shows "module1Score market \<le> module1Score (market\<lparr>tam := t'\<rparr>)"
  using tamCheck_mono[OF assms(1)] somAbsCheck_mono[OF assms]
  by (simp add: module1Score_def module1Checks_def somPctCheck_tam)

text \<open>From the default \<open>tam = 5e9\<close> with its 26 market points up to \<open>tam = 1e10\<close>.\<close>

theorem C9_module1_monotone_witness:
  "tam DEFAULTS_market \<le> Fin 10000000000 \<and> pct (samPct DEFAULTS_market) \<and>
   pct (somPct DEFAULTS_market) \<and> module1Score DEFAULTS_market = 26 \<and>
   26 \<le> module1Score (DEFAULTS_market\<lparr>tam := Fin 10000000000\<rparr>)"
proof -
  have h: "tam DEFAULTS_market \<le> Fin 10000000000" "pct (samPct DEFAULTS_market)"
    "pct (somPct DEFAULTS_market)"
    by (simp_all add: DEFAULTS_market_def pct_def)
  have "module1Score DEFAULTS_market = 26"
    by (simp add: module1Score_def module1Checks_def tamCheck_def somPctCheck_def
        somAbsCheck_def som_def sam_def DEFAULTS_market_def ovf_small)
  with C9_module1_monotone[OF h] h show ?thesis by simp
qed

subsection \<open>The guarded quotients\<close>

text \<open>
  A result that is not negative overflows only upwards, and one that is at most
  \<^verbatim>\<open>Number.MAX_VALUE\<close> does not overflow.
\<close>

lemma MAX_VALUE_less: "MAX_VALUE < overflowAt"
  by (simp add: MAX_VALUE_def overflowAt_def)

lemma ovf_nonneg: "0 \<le> r \<Longrightarrow> ovf r = (if overflowAt \<le> r then PInf else Fin r)"
  using overflowAt_pos by (simp add: ovf_def)

lemma ovf_in_range: "0 \<le> r \<Longrightarrow> r \<le> MAX_VALUE \<Longrightarrow> ovf r = Fin r"
  using MAX_VALUE_less by (simp add: ovf_nonneg)

text \<open>
  For a unit group inside its domain the divisors \<^verbatim>\<open>grossRevPerMonth\<close> and \<^verbatim>\<open>churnRate\<close>
  are finite and not negative: a price of at most \<^verbatim>\<open>Number.MAX_VALUE\<close> times a margin
  factor of at most 1 cannot overflow.
\<close>

lemma grossRevPerMonth_Fin:
  assumes "validUnit unit" "price unit \<le> Fin MAX_VALUE"
  shows "\<exists>g. grossRevPerMonth unit = Fin g \<and> 0 \<le> g"
proof -
  from assms obtain p where p: "price unit = Fin p" "0 \<le> p" "p \<le> MAX_VALUE"
    using amount_Fin[of "price unit"] by (auto simp: validUnit_def)
  from assms(1) obtain k where k: "grossMargin unit / Fin 100 = Fin k" "0 \<le> k" "k \<le> 1"
    using pct_div_100[of "grossMargin unit"] by (auto simp: validUnit_def)
  have "0 \<le> p / 12" "p / 12 \<le> MAX_VALUE" using p by simp_all
  then have "ovf (p / 12) = Fin (p / 12)" by (rule ovf_in_range)
  then have "monthlyPrice unit = Fin (if billing unit = ''monthly'' then p else p / 12)"
    using p(1) by (simp add: monthlyPrice_def)
  moreover have "0 \<le> (if billing unit = ''monthly'' then p else p / 12)"
    "(if billing unit = ''monthly'' then p else p / 12) \<le> MAX_VALUE"
    using p(2,3) by simp_all
  ultimately obtain q where q: "monthlyPrice unit = Fin q" "0 \<le> q" "q \<le> MAX_VALUE"
    by blast
  have "q * k \<le> q * 1" using q(2) k(3) by (intro mult_left_mono) simp_all
  then have "0 \<le> q * k" "q * k \<le> MAX_VALUE" using q k(2) by simp_all
  then have "ovf (q * k) = Fin (q * k)" by (rule ovf_in_range)
  then show ?thesis using q k \<open>0 \<le> q * k\<close> by (simp add: grossRevPerMonth_def)
qed

lemma churnRate_Fin:
  assumes "validUnit unit"
  shows "\<exists>c. churnRate unit = Fin c \<and> 0 \<le> c \<and> (churnMonthly unit = Fin 0 \<longrightarrow> c = 0)"
proof -
  from assms obtain r where r: "churnMonthly unit = Fin r" "0 \<le> r" "r \<le> 100"
    using pct_Fin[of "churnMonthly unit"] by (auto simp: validUnit_def)
  then have "\<bar>r / 100\<bar> \<le> 1000000000000000000000000000000" by simp
  then have "ovf (r / 100) = Fin (r / 100)" by (rule ovf_small)
  with r have "churnRate unit = Fin (r / 100)" "0 \<le> r / 100"
    "churnMonthly unit = Fin 0 \<longrightarrow> r / 100 = 0"
    by (simp_all add: churnRate_def)
  then show ?thesis by blast
qed

lemma quotient_cases:
  assumes "0 \<le> a" "0 < b"
  shows "Fin a / Fin b = (if overflowAt \<le> a / b then PInf else Fin (a / b))"
  using assms by (simp add: ovf_nonneg)

text \<open>
  C6, as the code has it. The claim reads: for inputs inside the documented domains
  \<open>churnMonthly = 0\<close> gives \<open>ltv = 999999\<close> and \<open>avgLifespanMonths = 999\<close>,
  \<open>grossRevPerMonth \<le> 0\<close> gives \<open>payback = 999\<close>, and \<open>ltv\<close>, \<open>payback\<close> and
  \<open>avgLifespanMonths\<close> are never Infinity or NaN. The sentinels hold as stated, and the
  guards keep every divisor positive, so the three values are never NaN and never
  \<open>-\<infinity>\<close>; but they are \<open>+\<infinity>\<close> when the guarded quotient of the finite operands
  overflows the range of a double, and only then. The price, as every finite JavaScript
  number, is at most \<^verbatim>\<open>Number.MAX_VALUE\<close>.
\<close>

theorem C6_sentinels:
  assumes "validUnit unit" "price unit \<le> Fin MAX_VALUE"
  shows "(churnMonthly unit = Fin 0 \<longrightarrow>
            d_ltv (derived (computeScore market unit runway)) = Fin 999999 \<and>
            d_avgLifespanMonths (derived (computeScore market unit runway)) = Fin 999) \<and>
         (grossRevPerMonth unit \<le> Fin 0 \<longrightarrow>
            d_payback (derived (computeScore market unit runway)) = Fin 999) \<and>
         d_ltv (derived (computeScore market unit runway)) \<noteq> NaN \<and>
         d_ltv (derived (computeScore market unit runway)) \<noteq> NInf \<and>
         d_payback (derived (computeScore market unit runway)) \<noteq> NaN \<and>
         d_payback (derived (computeScore market unit runway)) \<noteq> NInf \<and>
         d_avgLifespanMonths (derived (computeScore market unit runway)) \<noteq> NaN \<and>
         d_avgLifespanMonths (derived (computeScore market unit runway)) \<noteq> NInf \<and>
         (d_ltv (derived (computeScore market unit runway)) = PInf \<longrightarrow>
            (\<exists>g c. grossRevPerMonth unit = Fin g \<and> churnRate unit = Fin c \<and> 0 < c \<and>
                   overflowAt \<le> g / c)) \<and>
         (d_payback (derived (computeScore market unit runway)) = PInf \<longrightarrow>
            (\<exists>k g. cac unit = Fin k \<and> grossRevPerMonth unit = Fin g \<and> 0 < g \<and>
                   overflowAt \<le> k / g)) \<and>
         (d_avgLifespanMonths (derived (computeScore market unit runway)) = PInf \<longrightarrow>
            (\<exists>c. churnRate unit = Fin c \<and> 0 < c \<and> overflowAt \<le> 1 / c))"
proof -
  obtain g where g: "grossRevPerMonth unit = Fin g" "0 \<le> g"
    using grossRevPerMonth_Fin[OF assms] by blast
  obtain c where c: "churnRate unit = Fin c" "0 \<le> c" "churnMonthly unit = Fin 0 \<longrightarrow> c = 0"
    using churnRate_Fin[OF assms(1)] by blast
  obtain k where k: "cac unit = Fin k" "0 \<le> k"
    using assms(1) amount_Fin[of "cac unit"] by (auto simp: validUnit_def)
  have d: "d_ltv (derived (computeScore market unit runway)) = ltv unit"
    "d_payback (derived (computeScore market unit runway)) = payback unit"
    "d_avgLifespanMonths (derived (computeScore market unit runway)) = avgLifespanMonths unit"
    by (simp_all add: computeScore_def)
  have l: "ltv unit =
      (if 0 < c then (if overflowAt \<le> g / c then PInf else Fin (g / c)) else Fin 999999)"
    using g c(1,2) by (simp add: ltv_def ovf_nonneg)
  have p: "payback unit =
      (if 0 < g then (if overflowAt \<le> k / g then PInf else Fin (k / g)) else Fin 999)"
    using g k by (simp add: payback_def ovf_nonneg)
  have a: "avgLifespanMonths unit =
      (if 0 < c then (if overflowAt \<le> 1 / c then PInf else Fin (1 / c)) else Fin 999)"
    using c(1,2) by (simp add: avgLifespanMonths_def ovf_nonneg)
  show ?thesis unfolding d l p a using g c k by auto
qed

text \<open>
  C6 fails as stated: with a price of \<open>2^1023\<close>, a gross margin of 100 and a churn of 1,
  all inside the documented domains, \<open>ltv = 2^1023 / 0.01\<close> overflows to Infinity.
\<close>

theorem C6_ltv_infinite:
  "validUnit huge_unit \<and> price huge_unit \<le> Fin MAX_VALUE \<and>
   \<not> isFin (d_ltv (derived (computeScore DEFAULTS_market huge_unit DEFAULTS_runway)))"
  by (simp add: valid_defs huge_unit_def computeScore_def ltv_def churnRate_def
      grossRevPerMonth_def monthlyPrice_def ovf_def overflowAt_def MAX_VALUE_def)


text \<open>
  Both sentinels at the defaults with a gross margin and a churn of 0, and all three
  overflows at a price of 0.5, an acquisition cost of \<open>2^1023\<close> and a churn of \<open>2^-1030\<close>.
\<close>

theorem C6_sentinels_witness:
  "validUnit (DEFAULTS_unit\<lparr>grossMargin := Fin 0, churnMonthly := Fin 0\<rparr>) \<and>
   price (DEFAULTS_unit\<lparr>grossMargin := Fin 0, churnMonthly := Fin 0\<rparr>) \<le> Fin MAX_VALUE \<and>
   churnMonthly (DEFAULTS_unit\<lparr>grossMargin := Fin 0, churnMonthly := Fin 0\<rparr>) = Fin 0 \<and>
   grossRevPerMonth (DEFAULTS_unit\<lparr>grossMargin := Fin 0, churnMonthly := Fin 0\<rparr>) \<le> Fin 0 \<and>
   d_ltv (derived (computeScore DEFAULTS_market
      (DEFAULTS_unit\<lparr>grossMargin := Fin 0, churnMonthly := Fin 0\<rparr>) DEFAULTS_runway)) = Fin 999999 \<and>
   d_avgLifespanMonths (derived (computeScore DEFAULTS_market
      (DEFAULTS_unit\<lparr>grossMargin := Fin 0, churnMonthly := Fin 0\<rparr>) DEFAULTS_runway)) = Fin 999 \<and>
   d_payback (derived (computeScore DEFAULTS_market
      (DEFAULTS_unit\<lparr>grossMargin := Fin 0, churnMonthly := Fin 0\<rparr>) DEFAULTS_runway)) = Fin 999 \<and>
   validUnit overflow_unit \<and> price overflow_unit \<le> Fin MAX_VALUE \<and>
   d_ltv (derived (computeScore DEFAULTS_market overflow_unit DEFAULTS_runway)) = PInf \<and>
   d_payback (derived (computeScore DEFAULTS_market overflow_unit DEFAULTS_runway)) = PInf \<and>
   d_avgLifespanMonths (derived (computeScore DEFAULTS_market overflow_unit DEFAULTS_runway)) = PInf \<and>
   (\<exists>g c. grossRevPerMonth overflow_unit = Fin g \<and> churnRate overflow_unit = Fin c \<and> 0 < c \<and>
          overflowAt \<le> g / c) \<and>
   (\<exists>k g. cac overflow_unit = Fin k \<and> grossRevPerMonth overflow_unit = Fin g \<and> 0 < g \<and>
          overflowAt \<le> k / g) \<and>
   (\<exists>c. churnRate overflow_unit = Fin c \<and> 0 < c \<and> overflowAt \<le> 1 / c)"
proof -
  have h: "validUnit (DEFAULTS_unit\<lparr>grossMargin := Fin 0, churnMonthly := Fin 0\<rparr>)"
    "price (DEFAULTS_unit\<lparr>grossMargin := Fin 0, churnMonthly := Fin 0\<rparr>) \<le> Fin MAX_VALUE"
    "churnMonthly (DEFAULTS_unit\<lparr>grossMargin := Fin 0, churnMonthly := Fin 0\<rparr>) = Fin 0"
    "grossRevPerMonth (DEFAULTS_unit\<lparr>grossMargin := Fin 0, churnMonthly := Fin 0\<rparr>) \<le> Fin 0"
    by (simp_all add: valid_defs DEFAULTS_unit_def grossRevPerMonth_def monthlyPrice_def
        ovf_small MAX_VALUE_def)
  have o: "validUnit overflow_unit" "price overflow_unit \<le> Fin MAX_VALUE"
    "d_ltv (derived (computeScore DEFAULTS_market overflow_unit DEFAULTS_runway)) = PInf"
    "d_payback (derived (computeScore DEFAULTS_market overflow_unit DEFAULTS_runway)) = PInf"
    "d_avgLifespanMonths (derived (computeScore DEFAULTS_market overflow_unit DEFAULTS_runway)) =
       PInf"
    by (simp_all add: valid_defs overflow_unit_def computeScore_def ltv_def payback_def
        avgLifespanMonths_def churnRate_def grossRevPerMonth_def monthlyPrice_def ovf_def
        overflowAt_def MAX_VALUE_def)
  from C6_sentinels[OF h(1,2), of DEFAULTS_market DEFAULTS_runway]
    C6_sentinels[OF o(1,2), of DEFAULTS_market DEFAULTS_runway] h o
  show ?thesis by simp
qed

subsection \<open>The billing string\<close>









end
